theory Spec2Isabelle
  imports Main "HOL-Library.Word"
begin

unbundle bit_operations_syntax

section \<open>Bytes and strings\<close>

text \<open>
  A Go \<^verbatim>\<open>string\<close> and a Go \<^verbatim>\<open>[]byte\<close> are both sequences of bytes, and the conversions
  \<^verbatim>\<open>[]byte(s)\<close> and \<^verbatim>\<open>string(b)\<close> keep the bytes as they are. Both are modelled by
  \<^typ>\<open>string\<close>, a list of 8-bit characters.
\<close>

type_synonym bytes = string

section \<open>The standard library functions that \<^verbatim>\<open>newRoundTrip\<close> calls\<close>

subsection \<open>\<^verbatim>\<open>crypto/sha256\<close>\<close>

type_synonym u32 = "32 word"

type_synonym digest = "u32 \<times> u32 \<times> u32 \<times> u32 \<times> u32 \<times> u32 \<times> u32 \<times> u32"

text \<open>
  The constants of SHA-256, as the standard derives them: the initial hash value is the
  first 32 bits of the fractional parts of the square roots of the first eight primes,
  and the 64 round constants are the first 32 bits of the fractional parts of the cube
  roots of the first 64 primes, which are the primes up to 311. A number from 2 on is
  prime when no number from 2 up to its square root divides it. \<open>iroot k n b r\<close> adds
  to \<open>r\<close>, from bit \<open>b - 1\<close> downwards, every bit that keeps the \<open>k\<close>-th power at
  most \<open>n\<close>.
\<close>

fun iroot :: "nat \<Rightarrow> int \<Rightarrow> nat \<Rightarrow> int \<Rightarrow> int" where
  "iroot k n 0 r = r"
| "iroot k n (Suc b) r = iroot k n b (if (r + 2 ^ b) ^ k \<le> n then r + 2 ^ b else r)"

function no_divisor :: "int \<Rightarrow> int \<Rightarrow> bool" where
  "no_divisor p d =
     (if p < d * d then True else if p mod d = 0 then False else no_divisor p (d + 1))"
  by pat_completeness auto
termination
proof (relation "measure (\<lambda>(p, d). nat (p + 1 - d))")
  show "wf (measure (\<lambda>(p, d). nat (p + 1 - d)))"
    by simp
next
  fix p d :: int
  assume "\<not> p < d * d"
  then have "d * d \<le> p"
    by simp
  moreover have "d \<le> d * d"
  proof (cases "1 \<le> d")
    case True
    then show ?thesis
      using mult_left_mono [of 1 d d] by simp
  next
    case False
    then have "d \<le> 0"
      by simp
    also have "0 \<le> d * d"
      by simp
    finally show ?thesis .
  qed
  ultimately have "d \<le> p"
    by simp
  then show "((p, d + 1), (p, d)) \<in> measure (\<lambda>(p, d). nat (p + 1 - d))"
    by simp
qed

declare no_divisor.simps [simp del]

definition is_prime :: "int \<Rightarrow> bool" where
  "is_prime p = (2 \<le> p \<and> no_divisor p 2)"

definition primes64 :: "int list" where
  "primes64 = filter is_prime [2..311]"

definition frac_root32 :: "nat \<Rightarrow> int \<Rightarrow> u32" where
  "frac_root32 k p = word_of_int (iroot k (p * 2 ^ (32 * k)) 35 0)"

definition sha256_init :: digest where
  "sha256_init =
     (case map (frac_root32 2) (take 8 primes64) of
        [a, b, c, d, e, f, g, h] \<Rightarrow> (a, b, c, d, e, f, g, h)
      | _ \<Rightarrow> (0, 0, 0, 0, 0, 0, 0, 0))"

definition sha256_K :: "u32 list" where
  "sha256_K = map (frac_root32 3) primes64"

text \<open>Four bytes, most significant first, as one 32-bit word, and back.\<close>

definition be_word :: "char \<Rightarrow> char \<Rightarrow> char \<Rightarrow> char \<Rightarrow> u32" where
  "be_word a b c d =
     push_bit 24 (of_char a) OR push_bit 16 (of_char b) OR push_bit 8 (of_char c) OR of_char d"

definition be_bytes :: "u32 \<Rightarrow> bytes" where
  "be_bytes w =
     [char_of (uint (drop_bit 24 w)), char_of (uint (drop_bit 16 w)),
      char_of (uint (drop_bit 8 w)), char_of (uint w)]"

fun be_words :: "bytes \<Rightarrow> u32 list" where
  "be_words (a # b # c # d # rest) = be_word a b c d # be_words rest"
| "be_words _ = []"

text \<open>
  The message schedule: \<open>extend n w\<close> appends \<open>n\<close> further words to the words \<open>w\<close> of
  the block, each computed from the words two, seven, fifteen and sixteen places back.
\<close>

definition small_sigma0 :: "u32 \<Rightarrow> u32" where
  "small_sigma0 v = word_rotr 7 v XOR word_rotr 18 v XOR drop_bit 3 v"

definition small_sigma1 :: "u32 \<Rightarrow> u32" where
  "small_sigma1 v = word_rotr 17 v XOR word_rotr 19 v XOR drop_bit 10 v"

fun extend :: "nat \<Rightarrow> u32 list \<Rightarrow> u32 list" where
  "extend 0 w = w"
| "extend (Suc n) w =
     (let i = length w
      in extend n (w @ [small_sigma1 (w ! (i - 2)) + w ! (i - 7) +
                        small_sigma0 (w ! (i - 15)) + w ! (i - 16)]))"

definition round256 :: "digest \<Rightarrow> u32 \<times> u32 \<Rightarrow> digest" where
  "round256 s kw =
     (case s of (a, b, c, d, e, f, g, h) \<Rightarrow>
        let t1 = h + (word_rotr 6 e XOR word_rotr 11 e XOR word_rotr 25 e) +
                 ((e AND f) XOR (NOT e AND g)) + fst kw + snd kw;
            t2 = (word_rotr 2 a XOR word_rotr 13 a XOR word_rotr 22 a) +
                 ((a AND b) XOR (a AND c) XOR (b AND c))
        in (t1 + t2, a, b, c, d + t1, e, f, g))"

definition add_digest :: "digest \<Rightarrow> digest \<Rightarrow> digest" where
  "add_digest s t =
     (case s of (a, b, c, d, e, f, g, h) \<Rightarrow>
      case t of (a', b', c', d', e', f', g', h') \<Rightarrow>
        (a + a', b + b', c + c', d + d', e + e', f + f', g + g', h + h'))"

definition block256 :: "digest \<Rightarrow> bytes \<Rightarrow> digest" where
  "block256 s p = add_digest s (foldl round256 s (zip sha256_K (extend 48 (be_words p))))"

fun blocks256 :: "nat \<Rightarrow> digest \<Rightarrow> bytes \<Rightarrow> digest" where
  "blocks256 0 s p = s"
| "blocks256 (Suc n) s p = blocks256 n (block256 s (take 64 p)) (drop 64 p)"

text \<open>
  Padding: the byte \<open>0x80\<close>, zero bytes up to 56 modulo 64, and the length of the
  message in bits as a 64-bit big-endian number.
\<close>

definition be_bytes64 :: "64 word \<Rightarrow> bytes" where
  "be_bytes64 w = map (\<lambda>i. char_of (uint (drop_bit (8 * i) w))) [7, 6, 5, 4, 3, 2, 1, 0]"

definition sha256_pad :: "bytes \<Rightarrow> bytes" where
  "sha256_pad m =
     (let len = length m;
          zeros = (if len mod 64 < 56 then 55 - len mod 64 else 64 + 55 - len mod 64)
      in m @ [char_of (0x80 :: nat)] @ replicate zeros (char_of (0 :: nat)) @
         be_bytes64 (push_bit 3 (of_nat len)))"

definition digest_bytes :: "digest \<Rightarrow> bytes" where
  "digest_bytes s =
     (case s of (a, b, c, d, e, f, g, h) \<Rightarrow>
        be_bytes a @ be_bytes b @ be_bytes c @ be_bytes d @
        be_bytes e @ be_bytes f @ be_bytes g @ be_bytes h)"

definition sha256 :: "bytes \<Rightarrow> bytes" where
  "sha256 m = (let p = sha256_pad m in digest_bytes (blocks256 (length p div 64) sha256_init p))"

subsection \<open>\<^verbatim>\<open>crypto/hmac\<close>\<close>

definition xor_byte :: "nat \<Rightarrow> char \<Rightarrow> char" where
  "xor_byte p c = char_of ((of_char c :: nat) XOR p)"

definition hmac_sha256 :: "bytes \<Rightarrow> bytes \<Rightarrow> bytes" where
  "hmac_sha256 key m =
     (let k = (if 64 < length key then sha256 key else key);
          k0 = k @ replicate (64 - length k) (char_of (0 :: nat));
          inner = sha256 (map (xor_byte 0x36) k0 @ m)
      in sha256 (map (xor_byte 0x5c) k0 @ inner))"

subsection \<open>\<^verbatim>\<open>encoding/hex\<close>\<close>

definition hextable :: string where
  "hextable = ''0123456789abcdef''"

definition hex_byte :: "char \<Rightarrow> string" where
  "hex_byte c = [hextable ! ((of_char c :: nat) div 16), hextable ! ((of_char c :: nat) mod 16)]"

definition EncodeToString :: "bytes \<Rightarrow> string" where
  "EncodeToString src = concat (map hex_byte src)"

subsection \<open>\<^verbatim>\<open>strings\<close>, \<^verbatim>\<open>fmt\<close> and \<^verbatim>\<open>strconv\<close>\<close>

fun Join :: "string list \<Rightarrow> string \<Rightarrow> string" where
  "Join [] sep = []"
| "Join [e] sep = e"
| "Join (e # es) sep = e @ sep @ Join es sep"

text \<open>\<^verbatim>\<open>fmt.Sprintf("%s?%s", a, b)\<close>\<close>

definition Sprintf_query :: "string \<Rightarrow> string \<Rightarrow> string" where
  "Sprintf_query a b = a @ ''?'' @ b"

definition digit_char :: "int \<Rightarrow> char" where
  "digit_char d = ''0123456789abcdefghijklmnopqrstuvwxyz'' ! nat d"

function formatBits :: "int \<Rightarrow> int \<Rightarrow> string" where
  "formatBits base u =
     (if base < 2 \<or> u < base then [digit_char u]
      else formatBits base (u div base) @ [digit_char (u mod base)])"
  by pat_completeness auto
termination
proof (relation "measure (\<lambda>(base, u). nat u)")
  show "wf (measure (\<lambda>(base, u). nat u))"
    by simp
next
  fix base u :: int
  assume "\<not> (base < 2 \<or> u < base)"
  then have "2 \<le> base" and "0 < u"
    by simp_all
  then have "u div base < u"
    by (simp add: int_div_less_self)
  with \<open>0 < u\<close> show "((base, u div base), (base, u)) \<in> measure (\<lambda>(base, u). nat u)"
    by (simp add: pos_imp_zdiv_nonneg_iff)
qed

declare formatBits.simps [simp del]

text \<open>
  \<^verbatim>\<open>strconv.FormatInt(i, base)\<close> for an \<^verbatim>\<open>int64\<close>, read from its 64 bits in two's
  complement: a minus sign and the digits of the magnitude when \<open>i\<close> is negative.
\<close>

definition FormatInt :: "64 word \<Rightarrow> int \<Rightarrow> string" where
  "FormatInt i base =
     (if sint i < 0 then CHR ''-'' # formatBits base (- sint i) else formatBits base (sint i))"

section \<open>Errors\<close>

text \<open>
  An error is the package's own \<^verbatim>\<open>errInvalidRoundTripArgs\<close>, an error that comes from
  outside the package (a body reader, the network transport), known by its message, or
  \<^verbatim>\<open>fmt.Errorf("<context>: %w", err)\<close>, which wraps an error under a context.
\<close>

datatype error =
    errInvalidRoundTripArgs
  | External string
  | Errorf string error

fun Error :: "error \<Rightarrow> string" where
  "Error errInvalidRoundTripArgs = ''invalid auth arguments''"
| "Error (External m) = m"
| "Error (Errorf ctx err) = ctx @ '': '' @ Error err"

fun Unwrap :: "error \<Rightarrow> error option" where
  "Unwrap (Errorf ctx err) = Some err"
| "Unwrap _ = None"

section \<open>Requests\<close>

text \<open>
  A body is an \<^verbatim>\<open>io.ReadCloser\<close>: a stream that delivers the bytes \<open>pending\<close> and then
  ends, with \<^verbatim>\<open>io.EOF\<close> when \<open>failure\<close> is \<open>None\<close> and with that error otherwise.
  \<^verbatim>\<open>io.ReadAll\<close> returns the bytes it read and the error, \<^verbatim>\<open>nil\<close> at end of file.
\<close>

record reader =
  pending :: bytes
  failure :: "error option"

definition ReadAll :: "reader \<Rightarrow> bytes \<times> error option" where
  "ReadAll r = (pending r, failure r)"

text \<open>\<^verbatim>\<open>io.NopCloser(bytes.NewBuffer(b))\<close>\<close>

definition NewBuffer :: "bytes \<Rightarrow> reader" where
  "NewBuffer b = \<lparr>pending = b, failure = None\<rparr>"

text \<open>
  \<^verbatim>\<open>http.Header\<close> is a \<^verbatim>\<open>map[string][]string\<close>. \<^verbatim>\<open>Header.Add\<close> appends the value to
  the values stored under the canonical form of the key, which
  \<^verbatim>\<open>textproto.CanonicalMIMEHeaderKey\<close> computes: a key made of token bytes only has the
  first letter and every letter after a hyphen in upper case and the others in lower
  case; any other key is left as it is.
\<close>

type_synonym header = "string \<rightharpoonup> string list"

definition is_lower :: "char \<Rightarrow> bool" where
  "is_lower c = (97 \<le> (of_char c :: nat) \<and> (of_char c :: nat) \<le> 122)"

definition is_upper :: "char \<Rightarrow> bool" where
  "is_upper c = (65 \<le> (of_char c :: nat) \<and> (of_char c :: nat) \<le> 90)"

definition is_digit :: "char \<Rightarrow> bool" where
  "is_digit c = (48 \<le> (of_char c :: nat) \<and> (of_char c :: nat) \<le> 57)"

definition validHeaderFieldByte :: "char \<Rightarrow> bool" where
  "validHeaderFieldByte c =
     (is_lower c \<or> is_upper c \<or> is_digit c \<or>
      c \<in> set [CHR ''!'', CHR ''#'', CHR ''$'', CHR ''%'', CHR ''&'', CHR 0x27, CHR ''*'',
                 CHR ''+'', CHR ''-'', CHR ''.'', CHR ''^'', CHR ''_'', CHR 0x60, CHR ''|'',
                 CHR ''~''])"

fun canonicalMIMEHeaderKey :: "bool \<Rightarrow> string \<Rightarrow> string" where
  "canonicalMIMEHeaderKey upper [] = []"
| "canonicalMIMEHeaderKey upper (c # cs) =
     (let c' = (if upper \<and> is_lower c then char_of ((of_char c :: nat) - 32)
                else if \<not> upper \<and> is_upper c then char_of ((of_char c :: nat) + 32)
                else c)
      in c' # canonicalMIMEHeaderKey (c' = CHR ''-'') cs)"

definition CanonicalMIMEHeaderKey :: "string \<Rightarrow> string" where
  "CanonicalMIMEHeaderKey s =
     (if list_all validHeaderFieldByte s then canonicalMIMEHeaderKey True s else s)"

definition Add :: "header \<Rightarrow> string \<Rightarrow> string \<Rightarrow> header" where
  "Add h key val =
     (let k = CanonicalMIMEHeaderKey key
      in h(k \<mapsto> (case h k of None \<Rightarrow> [] | Some vs \<Rightarrow> vs) @ [val]))"

text \<open>\<^verbatim>\<open>Header.Values\<close>: the values stored under the canonical form of the key.\<close>

definition Values :: "header \<Rightarrow> string \<Rightarrow> string list" where
  "Values h key = (case h (CanonicalMIMEHeaderKey key) of None \<Rightarrow> [] | Some vs \<Rightarrow> vs)"

text \<open>
  The request as \<^verbatim>\<open>http.Client\<close> hands it to a round tripper: \<^verbatim>\<open>req.URL\<close> and
  \<^verbatim>\<open>req.Header\<close> are not \<^verbatim>\<open>nil\<close> there, \<^verbatim>\<open>req.Body\<close> may be.
\<close>

record url =
  Path :: string
  RawQuery :: string

record request =
  Method :: string
  URL :: url
  Header :: header
  Body :: "reader option"

record response =
  StatusCode :: int
  ResponseBody :: bytes

section \<open>The world outside the package\<close>

text \<open>
  What the code reads and changes outside its arguments:
  \<^item> the wall clock: \<open>clock w n\<close> is what the \<open>n\<close>-th call of \<^verbatim>\<open>time.Now().Unix()\<close>
    returns, and \<open>ticks w\<close> counts the calls made so far;
  \<^item> \<^verbatim>\<open>http.DefaultTransport\<close>: \<open>DefaultTransport w n req\<close> is the outcome of the \<open>n\<close>-th
    transmission, and \<open>sent w\<close> lists the requests handed to it so far, oldest first;
  \<^item> the field \<^verbatim>\<open>http.DefaultClient.Transport\<close>, an interface value: \<^verbatim>\<open>nil\<close>, a
    \<^verbatim>\<open>*roundTripper\<close> that is a \<^verbatim>\<open>nil\<close> pointer, or a pointer to a \<^verbatim>\<open>roundTripper\<close>.
\<close>

text \<open>
  A \<^verbatim>\<open>roundTripper\<close> holds the closure that \<^verbatim>\<open>newRoundTripper\<close> builds; the closure is
  known by the two variables it captures.
\<close>

record roundTripper =
  closure_key :: string
  closure_secret :: string

datatype RoundTripper = NilInterface | NilPointer | Pointer roundTripper

record world =
  clock :: "nat \<Rightarrow> 64 word"
  ticks :: nat
  DefaultTransport :: "nat \<Rightarrow> request \<Rightarrow> error + response"
  sent :: "request list"
  DefaultClient_Transport :: RoundTripper

definition Now_Unix :: "world \<Rightarrow> 64 word \<times> world" where
  "Now_Unix w = (clock w (ticks w), w\<lparr>ticks := Suc (ticks w)\<rparr>)"

definition DefaultTransport_RoundTrip :: "request \<Rightarrow> world \<Rightarrow> (error + response) \<times> world" where
  "DefaultTransport_RoundTrip req w =
     (DefaultTransport w (length (sent w)) req, w\<lparr>sent := sent w @ [req]\<rparr>)"

section \<open>The signing round trip\<close>

text \<open>
  \<^verbatim>\<open>newRoundTrip\<close>, in the order of its statements. The request is a pointer that the
  function changes in place: the model returns, with the result, the request as the
  function leaves it, which is the request it hands to the transport, and the world.
\<close>

definition readBody :: "request \<Rightarrow> bytes \<times> request" where
  "readBody req =
     (case Body req of
        None \<Rightarrow> ([], req)
      | Some r \<Rightarrow> (let body = fst (ReadAll r) in (body, req\<lparr>Body := Some (NewBuffer body)\<rparr>)))"

definition rpath :: "request \<Rightarrow> string" where
  "rpath req =
     (if RawQuery (URL req) \<noteq> [] then Sprintf_query (Path (URL req)) (RawQuery (URL req))
      else Path (URL req))"

definition formatBase :: int where
  "formatBase = 10"

definition signed_msg :: "string \<Rightarrow> request \<Rightarrow> bytes \<Rightarrow> string" where
  "signed_msg unix req body = Join [unix, Method req, rpath req, body] []"

definition setHeaders :: "request \<Rightarrow> string \<Rightarrow> string \<Rightarrow> string \<Rightarrow> request" where
  "setHeaders req key sig unix =
     req\<lparr>Header :=
           Add (Add (Add (Header req) ''cb-access-key'' key) ''cb-access-sign'' sig)
               ''cb-access-timestamp'' unix\<rparr>"

definition newRoundTrip ::
  "request \<Rightarrow> string \<Rightarrow> string \<Rightarrow> world \<Rightarrow> (error + response) \<times> request \<times> world" where
  "newRoundTrip req key secret w =
     (let (body, req1) = readBody req;
          (now, w1) = Now_Unix w;
          unix = FormatInt now formatBase;
          msg = signed_msg unix req1 body;
          sig = EncodeToString (hmac_sha256 secret msg);
          req2 = setHeaders req1 key sig unix;
          (res, w2) = DefaultTransport_RoundTrip req2 w1
      in case res of
           Inl err \<Rightarrow> (Inl (Errorf ''error making request'' err), req2, w2)
         | Inr rsp \<Rightarrow> (Inr rsp, req2, w2))"

definition newRoundTripper :: "string \<Rightarrow> string \<Rightarrow> error + roundTripper" where
  "newRoundTripper key secret =
     (if key = [] \<or> secret = [] then Inl errInvalidRoundTripArgs
      else Inr \<lparr>closure_key = key, closure_secret = secret\<rparr>)"

text \<open>\<^verbatim>\<open>RoundTrip\<close> calls the closure, which calls \<^verbatim>\<open>newRoundTrip\<close> with the captured variables.\<close>

definition RoundTrip ::
  "roundTripper \<Rightarrow> request \<Rightarrow> world \<Rightarrow> (error + response) \<times> request \<times> world" where
  "RoundTrip rtripper req w = newRoundTrip req (closure_key rtripper) (closure_secret rtripper) w"

section \<open>The client\<close>






text \<open>The three parts of what \<^verbatim>\<open>newRoundTrip\<close> returns.\<close>

abbreviation result_of :: "(error + response) \<times> request \<times> world \<Rightarrow> error + response" where
  "result_of x \<equiv> fst x"

abbreviation request_of :: "(error + response) \<times> request \<times> world \<Rightarrow> request" where
  "request_of x \<equiv> fst (snd x)"

abbreviation world_of :: "(error + response) \<times> request \<times> world \<Rightarrow> world" where
  "world_of x \<equiv> snd (snd x)"

section \<open>What the round trip computes\<close>

lemma Join_empty_sep: "Join es [] = concat es"
  by (induction es "[] :: string" rule: Join.induct) simp_all

lemma signed_msg_eq: "signed_msg unix req body = unix @ Method req @ rpath req @ body"
  by (simp add: signed_msg_def)

lemma readBody_fst: "fst (readBody req) = (case Body req of None \<Rightarrow> [] | Some r \<Rightarrow> pending r)"
  by (simp add: readBody_def ReadAll_def Let_def split: option.split)

lemma readBody_snd:
  "snd (readBody req) = req\<lparr>Body := map_option (\<lambda>r. NewBuffer (pending r)) (Body req)\<rparr>"
  by (simp add: readBody_def ReadAll_def Let_def split: option.split)

lemma canonical_key: "CanonicalMIMEHeaderKey ''cb-access-key'' = ''Cb-Access-Key''"
  by code_simp

lemma canonical_sign: "CanonicalMIMEHeaderKey ''cb-access-sign'' = ''Cb-Access-Sign''"
  by code_simp

lemma canonical_timestamp: "CanonicalMIMEHeaderKey ''cb-access-timestamp'' = ''Cb-Access-Timestamp''"
  by code_simp

lemma Header_setHeaders:
  "Header (setHeaders req key sig unix) =
     (Header req)
       (''Cb-Access-Key'' \<mapsto> Values (Header req) ''cb-access-key'' @ [key],
        ''Cb-Access-Sign'' \<mapsto> Values (Header req) ''cb-access-sign'' @ [sig],
        ''Cb-Access-Timestamp'' \<mapsto> Values (Header req) ''cb-access-timestamp'' @ [unix])"
  by (simp add: setHeaders_def Add_def Values_def Let_def canonical_key canonical_sign canonical_timestamp)

lemma newRoundTrip_request:
  "fst (snd (newRoundTrip req key secret w)) =
     setHeaders (snd (readBody req)) key
       (EncodeToString (hmac_sha256 secret
          (signed_msg (FormatInt (clock w (ticks w)) formatBase) (snd (readBody req)) (fst (readBody req)))))
       (FormatInt (clock w (ticks w)) formatBase)"
  by (simp add: newRoundTrip_def Now_Unix_def DefaultTransport_RoundTrip_def Let_def
      split: prod.split sum.split)

lemma newRoundTrip_world:
  "snd (snd (newRoundTrip req key secret w)) =
     w\<lparr>ticks := Suc (ticks w), sent := sent w @ [fst (snd (newRoundTrip req key secret w))]\<rparr>"
  by (simp add: newRoundTrip_def Now_Unix_def DefaultTransport_RoundTrip_def Let_def
      split: prod.split sum.split)

lemma newRoundTrip_result:
  "fst (newRoundTrip req key secret w) =
     (case DefaultTransport w (length (sent w)) (fst (snd (newRoundTrip req key secret w))) of
        Inl err \<Rightarrow> Inl (Errorf ''error making request'' err)
      | Inr rsp \<Rightarrow> Inr rsp)"
  by (simp add: newRoundTrip_def Now_Unix_def DefaultTransport_RoundTrip_def Let_def
      split: prod.split sum.split)

subsection \<open>The shape of a signature\<close>

lemma length_be_bytes: "length (be_bytes w) = 4"
  by (simp add: be_bytes_def)

lemma length_digest_bytes: "length (digest_bytes s) = 32"
  by (simp add: digest_bytes_def length_be_bytes split: prod.split)

lemma length_sha256: "length (sha256 m) = 32"
  by (simp add: sha256_def Let_def length_digest_bytes)

lemma length_hmac_sha256: "length (hmac_sha256 key m) = 32"
  by (simp add: hmac_sha256_def Let_def length_sha256)

lemma length_EncodeToString: "length (EncodeToString src) = 2 * length src"
  by (induction src) (simp_all add: EncodeToString_def hex_byte_def)

lemma hextable_nth: "n < 16 \<Longrightarrow> hextable ! n \<in> set hextable"
  by (rule nth_mem) (simp add: hextable_def)

lemma hex_byte_lower: "set (hex_byte c) \<subseteq> set hextable"
proof -
  have "(of_char c :: nat) < 256"
    by simp
  then have "(of_char c :: nat) div 16 < 16" and "(of_char c :: nat) mod 16 < 16"
    by arith+
  then show ?thesis
    by (simp add: hex_byte_def hextable_nth)
qed

lemma EncodeToString_lower: "set (EncodeToString src) \<subseteq> set hextable"
  using hex_byte_lower by (auto simp: EncodeToString_def)

subsection \<open>The request that is sent\<close>

lemma readBody_keeps:
  "Method (snd (readBody req)) = Method req"
  "URL (snd (readBody req)) = URL req"
  "Header (snd (readBody req)) = Header req"
  "rpath (snd (readBody req)) = rpath req"
  by (simp_all add: readBody_snd rpath_def)

lemma Header_newRoundTrip:
  "Header (request_of (newRoundTrip req key secret w)) =
     (Header req)
       (''Cb-Access-Key'' \<mapsto> Values (Header req) ''cb-access-key'' @ [key],
        ''Cb-Access-Sign'' \<mapsto> Values (Header req) ''cb-access-sign'' @
           [EncodeToString (hmac_sha256 secret
              (FormatInt (clock w (ticks w)) 10 @ Method req @ rpath req @
               (case Body req of None \<Rightarrow> [] | Some r \<Rightarrow> pending r)))],
        ''Cb-Access-Timestamp'' \<mapsto> Values (Header req) ''cb-access-timestamp'' @
           [FormatInt (clock w (ticks w)) 10])"
  by (simp add: newRoundTrip_request Header_setHeaders readBody_keeps signed_msg_eq
      readBody_fst formatBase_def)

lemma Values_key:
  "Values (Header (request_of (newRoundTrip req key secret w))) ''cb-access-key'' =
     Values (Header req) ''cb-access-key'' @ [key]"
  by (simp add: Header_newRoundTrip) (simp add: Values_def canonical_key)

lemma Values_sign:
  "Values (Header (request_of (newRoundTrip req key secret w))) ''cb-access-sign'' =
     Values (Header req) ''cb-access-sign'' @
       [EncodeToString (hmac_sha256 secret
          (FormatInt (clock w (ticks w)) 10 @ Method req @ rpath req @
           (case Body req of None \<Rightarrow> [] | Some r \<Rightarrow> pending r)))]"
  by (simp add: Header_newRoundTrip) (simp add: Values_def canonical_sign)

lemma Values_timestamp:
  "Values (Header (request_of (newRoundTrip req key secret w))) ''cb-access-timestamp'' =
     Values (Header req) ''cb-access-timestamp'' @ [FormatInt (clock w (ticks w)) 10]"
  by (simp add: Header_newRoundTrip) (simp add: Values_def canonical_timestamp)

lemma Body_newRoundTrip:
  "Body (request_of (newRoundTrip req key secret w)) =
     map_option (\<lambda>r. NewBuffer (pending r)) (Body req)"
  by (simp add: newRoundTrip_request setHeaders_def readBody_snd)

lemma FormatInt_scenario: "FormatInt 1700000000 10 = ''1700000000''"
  by code_simp

text \<open>
  The golden value of the first end-to-end scenario, computed from the definitions of
  HMAC and SHA-256 above.
\<close>

lemma golden_signature:
  "EncodeToString (hmac_sha256 ''secret'' ''1700000000GET/api/v3/brokerage/accounts'') =
     ''a3064cad6f051b1eb3266aa6b2aab3eb3c9a5e9496e6947ae0b6b650d1958199''"
  by code_simp

section \<open>The claims\<close>

text \<open>
  C1. For every secret, method, path with query, body and timestamp, the signature that
  \<^verbatim>\<open>newRoundTrip\<close> adds under \<^verbatim>\<open>cb-access-sign\<close> is the lowercase hexadecimal encoding
  (64 characters out of \<open>0123456789abcdef\<close>) of the HMAC-SHA256 digest, keyed by the
  secret, of the timestamp, the method, the path with query and the body, concatenated in
  this order with nothing between them. For the secret \<open>secret\<close>, the method \<open>GET\<close>, the
  path \<open>/api/v3/brokerage/accounts\<close>, no body and the clock at \<open>1700000000\<close>, the signed
  message is \<open>1700000000GET/api/v3/brokerage/accounts\<close>, and the signature is the
  pinned value.
\<close>

theorem signature_is_hex_hmac_sha256:
  "Values (Header (request_of (newRoundTrip req key secret w))) ''cb-access-sign'' =
     Values (Header req) ''cb-access-sign'' @
       [EncodeToString (hmac_sha256 secret
          (FormatInt (clock w (ticks w)) 10 @ Method req @ rpath req @
           (case Body req of None \<Rightarrow> [] | Some r \<Rightarrow> pending r)))] \<and>
   length (EncodeToString (hmac_sha256 secret m)) = 64 \<and>
   set (EncodeToString (hmac_sha256 secret m)) \<subseteq> set ''0123456789abcdef'' \<and>
   signed_msg (FormatInt 1700000000 10)
     \<lparr>Method = ''GET'', URL = \<lparr>Path = ''/api/v3/brokerage/accounts'', RawQuery = []\<rparr>,
      Header = h, Body = None\<rparr> (fst (readBody
     \<lparr>Method = ''GET'', URL = \<lparr>Path = ''/api/v3/brokerage/accounts'', RawQuery = []\<rparr>,
      Header = h, Body = None\<rparr>)) = ''1700000000GET/api/v3/brokerage/accounts'' \<and>
   Values (Header (request_of (newRoundTrip
     \<lparr>Method = ''GET'', URL = \<lparr>Path = ''/api/v3/brokerage/accounts'', RawQuery = []\<rparr>,
      Header = h, Body = None\<rparr> key ''secret'' (w\<lparr>clock := \<lambda>n. 1700000000\<rparr>)))) ''cb-access-sign'' =
     Values h ''cb-access-sign'' @
       [''a3064cad6f051b1eb3266aa6b2aab3eb3c9a5e9496e6947ae0b6b650d1958199'']"
proof -
  have shape: "length (EncodeToString (hmac_sha256 secret m)) = 64"
    by (simp add: length_EncodeToString length_hmac_sha256)
  have lower: "set (EncodeToString (hmac_sha256 secret m)) \<subseteq> set ''0123456789abcdef''"
    using EncodeToString_lower [of "hmac_sha256 secret m"] by (simp only: hextable_def)
  have msg: "signed_msg (FormatInt 1700000000 10)
     \<lparr>Method = ''GET'', URL = \<lparr>Path = ''/api/v3/brokerage/accounts'', RawQuery = []\<rparr>,
      Header = h, Body = None\<rparr> (fst (readBody
     \<lparr>Method = ''GET'', URL = \<lparr>Path = ''/api/v3/brokerage/accounts'', RawQuery = []\<rparr>,
      Header = h, Body = None\<rparr>)) = ''1700000000GET/api/v3/brokerage/accounts''"
    by (simp add: signed_msg_eq FormatInt_scenario rpath_def readBody_fst)
  have pinned: "Values (Header (request_of (newRoundTrip
     \<lparr>Method = ''GET'', URL = \<lparr>Path = ''/api/v3/brokerage/accounts'', RawQuery = []\<rparr>,
      Header = h, Body = None\<rparr> key ''secret'' (w\<lparr>clock := \<lambda>n. 1700000000\<rparr>)))) ''cb-access-sign'' =
     Values h ''cb-access-sign'' @
       [''a3064cad6f051b1eb3266aa6b2aab3eb3c9a5e9496e6947ae0b6b650d1958199'']"
    by (simp only: Values_sign)
       (simp add: FormatInt_scenario rpath_def golden_signature [simplified])
  from Values_sign shape lower msg pinned show ?thesis
    by (intro conjI)
qed

text \<open>
  C2. The path with query that enters the signed message is the URL path, followed by
  \<open>?\<close> and the raw query when the raw query is not empty, and the bare path, with no
  \<open>?\<close> at its end, when it is empty. The raw query \<open>limit=10\<close> on the path
  \<open>/api/v3/brokerage/accounts\<close> gives \<open>/api/v3/brokerage/accounts?limit=10\<close>, which
  differs from what the same path gives without a query.
\<close>

theorem path_with_query_in_signed_message:
  "rpath req =
     (if RawQuery (URL req) = [] then Path (URL req)
      else Path (URL req) @ ''?'' @ RawQuery (URL req)) \<and>
   Values (Header (request_of (newRoundTrip req key secret w))) ''cb-access-sign'' =
     Values (Header req) ''cb-access-sign'' @
       [EncodeToString (hmac_sha256 secret
          (FormatInt (clock w (ticks w)) 10 @ Method req @
           (if RawQuery (URL req) = [] then Path (URL req)
            else Path (URL req) @ ''?'' @ RawQuery (URL req)) @
           (case Body req of None \<Rightarrow> [] | Some r \<Rightarrow> pending r)))] \<and>
   rpath (req\<lparr>URL := \<lparr>Path = ''/api/v3/brokerage/accounts'', RawQuery = ''limit=10''\<rparr>\<rparr>) =
     ''/api/v3/brokerage/accounts?limit=10'' \<and>
   rpath (req\<lparr>URL := \<lparr>Path = ''/api/v3/brokerage/accounts'', RawQuery = []\<rparr>\<rparr>) =
     ''/api/v3/brokerage/accounts'' \<and>
   rpath (req\<lparr>URL := \<lparr>Path = ''/api/v3/brokerage/accounts'', RawQuery = ''limit=10''\<rparr>\<rparr>) \<noteq>
     rpath (req\<lparr>URL := \<lparr>Path = ''/api/v3/brokerage/accounts'', RawQuery = []\<rparr>\<rparr>)"
proof -
  have path: "rpath r =
     (if RawQuery (URL r) = [] then Path (URL r) else Path (URL r) @ ''?'' @ RawQuery (URL r))"
    for r
    by (simp add: rpath_def Sprintf_query_def)
  show ?thesis
    using Values_sign [of req key secret w] by (simp add: path)
qed

text \<open>
  C3. \<^verbatim>\<open>newRoundTripper\<close> succeeds exactly when the key and the secret are both not
  empty. When either is empty it fails with the error whose message is
  \<open>invalid auth arguments\<close>. Nothing else is checked: whatever the two non-empty strings
  are, the round tripper it returns signs with them.
\<close>

theorem construction_checks_emptiness_only:
  "((\<exists>rtripper. newRoundTripper key secret = Inr rtripper) \<longleftrightarrow> key \<noteq> [] \<and> secret \<noteq> []) \<and>
   (key = [] \<or> secret = [] \<longrightarrow>
      newRoundTripper key secret = Inl errInvalidRoundTripArgs \<and>
      Error errInvalidRoundTripArgs = ''invalid auth arguments'') \<and>
   (key \<noteq> [] \<and> secret \<noteq> [] \<longrightarrow>
      (\<exists>rtripper. newRoundTripper key secret = Inr rtripper \<and>
         RoundTrip rtripper req w = newRoundTrip req key secret w))"
  by (simp add: newRoundTripper_def RoundTrip_def)

theorem construction_checks_emptiness_only_witness:
  "(''k'' \<noteq> [] \<and> ''s'' \<noteq> [] \<and> (\<exists>rtripper. newRoundTripper ''k'' ''s'' = Inr rtripper)) \<and>
   ((''k'' = [] \<or> [] = ([] :: string)) \<and>
      newRoundTripper ''k'' [] = Inl errInvalidRoundTripArgs) \<and>
   (([] = ([] :: string) \<or> ''s'' = []) \<and>
      newRoundTripper [] ''s'' = Inl errInvalidRoundTripArgs)"
  using construction_checks_emptiness_only [of "''k''" "''s''"]
    construction_checks_emptiness_only [of "''k''" "[]"]
    construction_checks_emptiness_only [of "[]" "''s''"]
  by simp

text \<open>
  C4. The timestamp inside the signed message and the value added under
  \<^verbatim>\<open>cb-access-timestamp\<close> are the same string: the decimal form of the one reading of
  the clock that \<^verbatim>\<open>newRoundTrip\<close> takes.
\<close>

theorem one_timestamp_signed_and_sent:
  "Values (Header (request_of (newRoundTrip req key secret w))) ''cb-access-timestamp'' =
     Values (Header req) ''cb-access-timestamp'' @ [FormatInt (clock w (ticks w)) 10] \<and>
   Values (Header (request_of (newRoundTrip req key secret w))) ''cb-access-sign'' =
     Values (Header req) ''cb-access-sign'' @
       [EncodeToString (hmac_sha256 secret
          (FormatInt (clock w (ticks w)) 10 @ Method req @ rpath req @
           (case Body req of None \<Rightarrow> [] | Some r \<Rightarrow> pending r)))] \<and>
   ticks (world_of (newRoundTrip req key secret w)) = Suc (ticks w)"
  using Values_timestamp [of req key secret w] Values_sign [of req key secret w]
  by (simp add: newRoundTrip_world)

text \<open>
  C5. When the request carries a body, the request that \<^verbatim>\<open>newRoundTrip\<close> hands to the
  transport carries a body again, and reading it gives the bytes of the original body
  and no error: the read for signing does not use the body up.
\<close>

theorem body_restored_after_signing:
  assumes "Body req = Some r"
  shows "(\<exists>r'. Body (request_of (newRoundTrip req key secret w)) = Some r' \<and>
            ReadAll r' = (pending r, None)) \<and>
         sent (world_of (newRoundTrip req key secret w)) =
           sent w @ [request_of (newRoundTrip req key secret w)]"
  using assms by (simp add: Body_newRoundTrip newRoundTrip_world ReadAll_def NewBuffer_def)

theorem body_restored_after_signing_witness:
  "Body \<lparr>Method = ''POST'', URL = \<lparr>Path = ''/api/v3/brokerage/orders'', RawQuery = []\<rparr>,
         Header = Map.empty, Body = Some \<lparr>pending = ''side=BUY'', failure = None\<rparr>\<rparr> =
     Some \<lparr>pending = ''side=BUY'', failure = None\<rparr> \<and>
   (\<exists>r'. Body (request_of (newRoundTrip
        \<lparr>Method = ''POST'', URL = \<lparr>Path = ''/api/v3/brokerage/orders'', RawQuery = []\<rparr>,
         Header = Map.empty, Body = Some \<lparr>pending = ''side=BUY'', failure = None\<rparr>\<rparr>
        ''k'' ''s''
        \<lparr>clock = (\<lambda>n. 1700000000), ticks = 0,
         DefaultTransport = (\<lambda>n r. Inr \<lparr>StatusCode = 200, ResponseBody = []\<rparr>), sent = [],
         DefaultClient_Transport = NilInterface\<rparr>)) = Some r' \<and>
      ReadAll r' = (''side=BUY'', None))"
  using body_restored_after_signing
    [of "\<lparr>Method = ''POST'', URL = \<lparr>Path = ''/api/v3/brokerage/orders'', RawQuery = []\<rparr>,
         Header = Map.empty, Body = Some \<lparr>pending = ''side=BUY'', failure = None\<rparr>\<rparr>"
        "\<lparr>pending = ''side=BUY'', failure = None\<rparr>" "''k''" "''s''"
        "\<lparr>clock = (\<lambda>n. 1700000000), ticks = 0,
         DefaultTransport = (\<lambda>n r. Inr \<lparr>StatusCode = 200, ResponseBody = []\<rparr>), sent = [],
         DefaultClient_Transport = NilInterface\<rparr>"]
  by simp

text \<open>
  C6. A request without a body and the same request with an empty body get the same
  signature, the one of the message that ends after the path, and the same headers. The
  absent body is no error: the result is what the transport returns.
\<close>

theorem absent_body_signs_as_empty_body:
  "Values (Header (request_of (newRoundTrip (req\<lparr>Body := None\<rparr>) key secret w))) ''cb-access-sign'' =
     Values (Header req) ''cb-access-sign'' @
       [EncodeToString (hmac_sha256 secret
          (FormatInt (clock w (ticks w)) 10 @ Method req @ rpath req @ []))] \<and>
   Values (Header (request_of (newRoundTrip (req\<lparr>Body := Some (NewBuffer [])\<rparr>) key secret w)))
       ''cb-access-sign'' =
     Values (Header (request_of (newRoundTrip (req\<lparr>Body := None\<rparr>) key secret w)))
       ''cb-access-sign'' \<and>
   Header (request_of (newRoundTrip (req\<lparr>Body := Some (NewBuffer [])\<rparr>) key secret w)) =
     Header (request_of (newRoundTrip (req\<lparr>Body := None\<rparr>) key secret w)) \<and>
   result_of (newRoundTrip (req\<lparr>Body := None\<rparr>) key secret w) =
     (case DefaultTransport w (length (sent w))
             (request_of (newRoundTrip (req\<lparr>Body := None\<rparr>) key secret w)) of
        Inl err \<Rightarrow> Inl (Errorf ''error making request'' err)
      | Inr rsp \<Rightarrow> Inr rsp)"
proof -
  have path: "rpath (req\<lparr>Body := b\<rparr>) = rpath req" for b
    by (simp add: rpath_def)
  have headers:
    "Header (request_of (newRoundTrip (req\<lparr>Body := Some (NewBuffer [])\<rparr>) key secret w)) =
     Header (request_of (newRoundTrip (req\<lparr>Body := None\<rparr>) key secret w))"
    by (simp add: Header_newRoundTrip path NewBuffer_def)
  have sign:
    "Values (Header (request_of (newRoundTrip (req\<lparr>Body := None\<rparr>) key secret w)))
       ''cb-access-sign'' =
     Values (Header req) ''cb-access-sign'' @
       [EncodeToString (hmac_sha256 secret
          (FormatInt (clock w (ticks w)) 10 @ Method req @ rpath req @ []))]"
    using Values_sign [of "req\<lparr>Body := None\<rparr>" key secret w] by (simp add: path)
  from sign headers newRoundTrip_result [of "req\<lparr>Body := None\<rparr>" key secret w]
  show ?thesis
    by simp
qed

text \<open>
  C7. When the transport fails, \<^verbatim>\<open>newRoundTrip\<close> returns no response and the error of
  the transport wrapped under \<open>error making request\<close>; when the transport succeeds, it
  returns the response of the transport as it is. In both cases the request is handed to
  the transport once.
\<close>

theorem transport_failure_wrapped_once:
  "result_of (newRoundTrip req key secret w) =
     (case DefaultTransport w (length (sent w)) (request_of (newRoundTrip req key secret w)) of
        Inl err \<Rightarrow> Inl (Errorf ''error making request'' err)
      | Inr rsp \<Rightarrow> Inr rsp) \<and>
   sent (world_of (newRoundTrip req key secret w)) =
     sent w @ [request_of (newRoundTrip req key secret w)] \<and>
   Error (Errorf ''error making request'' err) = ''error making request: '' @ Error err \<and>
   Unwrap (Errorf ''error making request'' err) = Some err"
  using newRoundTrip_result [of req key secret w] by (simp add: newRoundTrip_world)

theorem transport_failure_wrapped_once_witness:
  "result_of (newRoundTrip
      \<lparr>Method = ''GET'', URL = \<lparr>Path = ''/api/v3/brokerage/accounts'', RawQuery = []\<rparr>,
       Header = Map.empty, Body = None\<rparr> ''k'' ''s''
      \<lparr>clock = (\<lambda>n. 1700000000), ticks = 0,
       DefaultTransport =
         (\<lambda>n r. if n = 0 then Inl (External ''dial tcp: i/o timeout'')
                 else Inr \<lparr>StatusCode = 200, ResponseBody = []\<rparr>),
       sent = [], DefaultClient_Transport = NilInterface\<rparr>) =
     Inl (Errorf ''error making request'' (External ''dial tcp: i/o timeout'')) \<and>
   length (sent (world_of (newRoundTrip
      \<lparr>Method = ''GET'', URL = \<lparr>Path = ''/api/v3/brokerage/accounts'', RawQuery = []\<rparr>,
       Header = Map.empty, Body = None\<rparr> ''k'' ''s''
      \<lparr>clock = (\<lambda>n. 1700000000), ticks = 0,
       DefaultTransport =
         (\<lambda>n r. if n = 0 then Inl (External ''dial tcp: i/o timeout'')
                 else Inr \<lparr>StatusCode = 200, ResponseBody = []\<rparr>),
       sent = [], DefaultClient_Transport = NilInterface\<rparr>))) = 1 \<and>
   result_of (newRoundTrip
      \<lparr>Method = ''GET'', URL = \<lparr>Path = ''/api/v3/brokerage/accounts'', RawQuery = []\<rparr>,
       Header = Map.empty, Body = None\<rparr> ''k'' ''s''
      \<lparr>clock = (\<lambda>n. 1700000000), ticks = 0,
       DefaultTransport = (\<lambda>n r. Inr \<lparr>StatusCode = 200, ResponseBody = ''ok''\<rparr>),
       sent = [], DefaultClient_Transport = NilInterface\<rparr>) =
     Inr \<lparr>StatusCode = 200, ResponseBody = ''ok''\<rparr>"
  using transport_failure_wrapped_once
    [of "\<lparr>Method = ''GET'', URL = \<lparr>Path = ''/api/v3/brokerage/accounts'', RawQuery = []\<rparr>,
       Header = Map.empty, Body = None\<rparr>" "''k''" "''s''"
      "\<lparr>clock = (\<lambda>n. 1700000000), ticks = 0,
       DefaultTransport =
         (\<lambda>n r. if n = 0 then Inl (External ''dial tcp: i/o timeout'')
                 else Inr \<lparr>StatusCode = 200, ResponseBody = []\<rparr>),
       sent = [], DefaultClient_Transport = NilInterface\<rparr>"]
    transport_failure_wrapped_once
    [of "\<lparr>Method = ''GET'', URL = \<lparr>Path = ''/api/v3/brokerage/accounts'', RawQuery = []\<rparr>,
       Header = Map.empty, Body = None\<rparr>" "''k''" "''s''"
      "\<lparr>clock = (\<lambda>n. 1700000000), ticks = 0,
       DefaultTransport = (\<lambda>n r. Inr \<lparr>StatusCode = 200, ResponseBody = ''ok''\<rparr>),
       sent = [], DefaultClient_Transport = NilInterface\<rparr>"]
  by simp

text \<open>
  C8. \<^verbatim>\<open>newRoundTrip\<close> appends the key to the values of the access-key header, the
  signature to the values of the access-sign header and the timestamp to the values of
  the access-timestamp header: values already there are kept in front. Every other
  header of the request is as it was, and no other header name appears.
\<close>

theorem three_headers_appended_rest_kept:
  assumes "k \<notin> {''Cb-Access-Key'', ''Cb-Access-Sign'', ''Cb-Access-Timestamp''}"
  shows
    "Values (Header (request_of (newRoundTrip req key secret w))) ''cb-access-key'' =
       Values (Header req) ''cb-access-key'' @ [key] \<and>
     Values (Header (request_of (newRoundTrip req key secret w))) ''cb-access-sign'' =
       Values (Header req) ''cb-access-sign'' @
         [EncodeToString (hmac_sha256 secret
            (FormatInt (clock w (ticks w)) 10 @ Method req @ rpath req @
             (case Body req of None \<Rightarrow> [] | Some r \<Rightarrow> pending r)))] \<and>
     Values (Header (request_of (newRoundTrip req key secret w))) ''cb-access-timestamp'' =
       Values (Header req) ''cb-access-timestamp'' @ [FormatInt (clock w (ticks w)) 10] \<and>
     Header (request_of (newRoundTrip req key secret w)) k = Header req k \<and>
     dom (Header (request_of (newRoundTrip req key secret w))) =
       dom (Header req) \<union> {''Cb-Access-Key'', ''Cb-Access-Sign'', ''Cb-Access-Timestamp''} \<and>
     CanonicalMIMEHeaderKey ''cb-access-key'' = ''Cb-Access-Key'' \<and>
     CanonicalMIMEHeaderKey ''cb-access-sign'' = ''Cb-Access-Sign'' \<and>
     CanonicalMIMEHeaderKey ''cb-access-timestamp'' = ''Cb-Access-Timestamp''"
proof -
  have other: "Header (request_of (newRoundTrip req key secret w)) k = Header req k"
    using assms by (simp add: Header_newRoundTrip)
  have keys: "dom (Header (request_of (newRoundTrip req key secret w))) =
      dom (Header req) \<union> {''Cb-Access-Key'', ''Cb-Access-Sign'', ''Cb-Access-Timestamp''}"
    by (simp add: Header_newRoundTrip) blast
  from Values_key Values_sign Values_timestamp other keys
    canonical_key canonical_sign canonical_timestamp
  show ?thesis
    by (intro conjI)
qed

theorem three_headers_appended_rest_kept_witness:
  "''Accept'' \<notin> {''Cb-Access-Key'', ''Cb-Access-Sign'', ''Cb-Access-Timestamp''} \<and>
   Values (Header (request_of (newRoundTrip
      \<lparr>Method = ''GET'', URL = \<lparr>Path = ''/api/v3/brokerage/accounts'', RawQuery = []\<rparr>,
       Header = [''Cb-Access-Key'' \<mapsto> [''old''], ''Accept'' \<mapsto> [''application/json'']],
       Body = None\<rparr> ''k'' ''s''
      \<lparr>clock = (\<lambda>n. 1700000000), ticks = 0,
       DefaultTransport = (\<lambda>n r. Inr \<lparr>StatusCode = 200, ResponseBody = []\<rparr>),
       sent = [], DefaultClient_Transport = NilInterface\<rparr>))) ''cb-access-key'' = [''old'', ''k''] \<and>
   Values (Header (request_of (newRoundTrip
      \<lparr>Method = ''GET'', URL = \<lparr>Path = ''/api/v3/brokerage/accounts'', RawQuery = []\<rparr>,
       Header = [''Cb-Access-Key'' \<mapsto> [''old''], ''Accept'' \<mapsto> [''application/json'']],
       Body = None\<rparr> ''k'' ''s''
      \<lparr>clock = (\<lambda>n. 1700000000), ticks = 0,
       DefaultTransport = (\<lambda>n r. Inr \<lparr>StatusCode = 200, ResponseBody = []\<rparr>),
       sent = [], DefaultClient_Transport = NilInterface\<rparr>))) ''cb-access-timestamp'' =
     [''1700000000''] \<and>
   Header (request_of (newRoundTrip
      \<lparr>Method = ''GET'', URL = \<lparr>Path = ''/api/v3/brokerage/accounts'', RawQuery = []\<rparr>,
       Header = [''Cb-Access-Key'' \<mapsto> [''old''], ''Accept'' \<mapsto> [''application/json'']],
       Body = None\<rparr> ''k'' ''s''
      \<lparr>clock = (\<lambda>n. 1700000000), ticks = 0,
       DefaultTransport = (\<lambda>n r. Inr \<lparr>StatusCode = 200, ResponseBody = []\<rparr>),
       sent = [], DefaultClient_Transport = NilInterface\<rparr>)) ''Accept'' =
     Some [''application/json'']"
  using three_headers_appended_rest_kept
    [of "''Accept''"
      "\<lparr>Method = ''GET'', URL = \<lparr>Path = ''/api/v3/brokerage/accounts'', RawQuery = []\<rparr>,
       Header = [''Cb-Access-Key'' \<mapsto> [''old''], ''Accept'' \<mapsto> [''application/json'']],
       Body = None\<rparr>" "''k''" "''s''"
      "\<lparr>clock = (\<lambda>n. 1700000000), ticks = 0,
       DefaultTransport = (\<lambda>n r. Inr \<lparr>StatusCode = 200, ResponseBody = []\<rparr>),
       sent = [], DefaultClient_Transport = NilInterface\<rparr>"]
  by (simp add: Values_def FormatInt_scenario canonical_key canonical_sign canonical_timestamp)



text \<open>
  C10. An error of the body reader is dropped: \<^verbatim>\<open>newRoundTrip\<close> does with a body that
  fails after some bytes exactly what it does with a body that ends after the same bytes.
  It signs those bytes, sends them as the body, and returns what the transport returns,
  so the only error it returns is a wrapped error of the transport.
\<close>

theorem body_read_error_discarded:
  "newRoundTrip (req\<lparr>Body := Some \<lparr>pending = bs, failure = Some e\<rparr>\<rparr>) key secret w =
     newRoundTrip (req\<lparr>Body := Some \<lparr>pending = bs, failure = None\<rparr>\<rparr>) key secret w \<and>
   Values (Header (request_of
       (newRoundTrip (req\<lparr>Body := Some \<lparr>pending = bs, failure = Some e\<rparr>\<rparr>) key secret w)))
       ''cb-access-sign'' =
     Values (Header req) ''cb-access-sign'' @
       [EncodeToString (hmac_sha256 secret
          (FormatInt (clock w (ticks w)) 10 @ Method req @ rpath req @ bs))] \<and>
   Body (request_of
       (newRoundTrip (req\<lparr>Body := Some \<lparr>pending = bs, failure = Some e\<rparr>\<rparr>) key secret w)) =
     Some \<lparr>pending = bs, failure = None\<rparr> \<and>
   result_of (newRoundTrip (req\<lparr>Body := Some \<lparr>pending = bs, failure = Some e\<rparr>\<rparr>) key secret w) =
     (case DefaultTransport w (length (sent w))
             (request_of
               (newRoundTrip (req\<lparr>Body := Some \<lparr>pending = bs, failure = Some e\<rparr>\<rparr>) key secret w)) of
        Inl err \<Rightarrow> Inl (Errorf ''error making request'' err)
      | Inr rsp \<Rightarrow> Inr rsp)"
proof -
  have path: "rpath (req\<lparr>Body := b\<rparr>) = rpath req" for b
    by (simp add: rpath_def)
  have same: "newRoundTrip (req\<lparr>Body := Some \<lparr>pending = bs, failure = Some e\<rparr>\<rparr>) key secret w =
     newRoundTrip (req\<lparr>Body := Some \<lparr>pending = bs, failure = None\<rparr>\<rparr>) key secret w"
    by (simp add: newRoundTrip_def readBody_def ReadAll_def Let_def signed_msg_def path)
  have sign: "Values (Header (request_of
       (newRoundTrip (req\<lparr>Body := Some \<lparr>pending = bs, failure = Some e\<rparr>\<rparr>) key secret w)))
       ''cb-access-sign'' =
     Values (Header req) ''cb-access-sign'' @
       [EncodeToString (hmac_sha256 secret
          (FormatInt (clock w (ticks w)) 10 @ Method req @ rpath req @ bs))]"
    using Values_sign [of "req\<lparr>Body := Some \<lparr>pending = bs, failure = Some e\<rparr>\<rparr>" key secret w]
    by (simp add: path)
  have body: "Body (request_of
       (newRoundTrip (req\<lparr>Body := Some \<lparr>pending = bs, failure = Some e\<rparr>\<rparr>) key secret w)) =
     Some \<lparr>pending = bs, failure = None\<rparr>"
    by (simp add: Body_newRoundTrip NewBuffer_def)
  from same sign body
    newRoundTrip_result [of "req\<lparr>Body := Some \<lparr>pending = bs, failure = Some e\<rparr>\<rparr>" key secret w]
  show ?thesis
    by (intro conjI)
qed

theorem body_read_error_discarded_witness:
  "result_of (newRoundTrip
      \<lparr>Method = ''POST'', URL = \<lparr>Path = ''/api/v3/brokerage/orders'', RawQuery = []\<rparr>,
       Header = Map.empty,
       Body = Some \<lparr>pending = ''side='', failure = Some (External ''unexpected EOF'')\<rparr>\<rparr>
      ''k'' ''s''
      \<lparr>clock = (\<lambda>n. 1700000000), ticks = 0,
       DefaultTransport = (\<lambda>n r. Inr \<lparr>StatusCode = 200, ResponseBody = ''ok''\<rparr>),
       sent = [], DefaultClient_Transport = NilInterface\<rparr>) =
     Inr \<lparr>StatusCode = 200, ResponseBody = ''ok''\<rparr> \<and>
   Body (request_of (newRoundTrip
      \<lparr>Method = ''POST'', URL = \<lparr>Path = ''/api/v3/brokerage/orders'', RawQuery = []\<rparr>,
       Header = Map.empty,
       Body = Some \<lparr>pending = ''side='', failure = Some (External ''unexpected EOF'')\<rparr>\<rparr>
      ''k'' ''s''
      \<lparr>clock = (\<lambda>n. 1700000000), ticks = 0,
       DefaultTransport = (\<lambda>n r. Inr \<lparr>StatusCode = 200, ResponseBody = ''ok''\<rparr>),
       sent = [], DefaultClient_Transport = NilInterface\<rparr>)) =
     Some \<lparr>pending = ''side='', failure = None\<rparr>"
  using body_read_error_discarded
    [where req = "\<lparr>Method = ''POST'', URL = \<lparr>Path = ''/api/v3/brokerage/orders'', RawQuery = []\<rparr>,
       Header = Map.empty,
       Body = Some \<lparr>pending = ''side='', failure = Some (External ''unexpected EOF'')\<rparr>\<rparr>"
      and bs = "''side=''" and e = "External ''unexpected EOF''" and key = "''k''"
      and secret = "''s''" and w = "\<lparr>clock = (\<lambda>n. 1700000000), ticks = 0,
       DefaultTransport = (\<lambda>n r. Inr \<lparr>StatusCode = 200, ResponseBody = ''ok''\<rparr>),
       sent = [], DefaultClient_Transport = NilInterface\<rparr>"]
  by (simp add: Body_newRoundTrip NewBuffer_def newRoundTrip_result)

end
